theory Spec2Isabelle
  imports Complex_Main "HOL-Library.Word" "HOL-Library.Monad_Syntax"
begin

unbundle bit_operations_syntax

section \<open>S57data.c: the geo object\<close>

text \<open>
  A C \<^verbatim>\<open>double\<close> where the code asks \<^verbatim>\<open>isinf\<close>: a finite value, one of the two
  infinities, or a NaN.
\<close>

datatype double = Finite real | PInf | MInf | NaN

fun isinf :: "double \<Rightarrow> bool" where
  "isinf PInf = True"
| "isinf MInf = True"
| "isinf (Finite r) = False"
| "isinf NaN = False"

text \<open>\<^verbatim>\<open>typedef struct _pt2 { double x,y; } pt2;\<close>\<close>

type_synonym pt2 = "double \<times> double"

text \<open>
  \<^verbatim>\<open>struct _rect\<close>: x1 is W, y1 is S, x2 is E, y2 is N (the fields carry the
  struct's name here, to keep \<open>x1\<close> ... \<open>y2\<close> free for parameters).
\<close>

record rect =
  rect_x1 :: double
  rect_y1 :: double
  rect_x2 :: double
  rect_y2 :: double

text \<open>
  \<^verbatim>\<open>struct _S57_geo\<close>, the fields that the functions below read or write. A pointer
  to another geo object is its address (a \<open>nat\<close>), \<open>None\<close> for \<^verbatim>\<open>NULL\<close>.

  \<^item> \<open>attribs\<close> is the \<^verbatim>\<open>GData\<close> list: from the attribute name (the quark of the
    string) to the \<^verbatim>\<open>GString\<close> stored under it.
  \<^item> \<open>touch\<close> is the \<^verbatim>\<open>union { S57_geo *TOPMAR; S57_geo *LIGHTS; S57_geo *DEPARE;
    S57_geo *DEPVAL; } touch\<close>: the four members are one pointer-sized cell.
  \<^item> \<open>centroid\<close> is the \<^verbatim>\<open>GArray\<close> of \<^verbatim>\<open>pt2\<close>, \<open>None\<close> while the pointer is
    \<^verbatim>\<open>NULL\<close>; \<open>centroidIdx\<close> is a \<^verbatim>\<open>guint\<close> that the code only increments below
    the array's \<^verbatim>\<open>guint\<close> length, so it never wraps and is a \<open>nat\<close> here.

  The functions are modelled at a geo object that is there: on a \<^verbatim>\<open>NULL\<close> argument
  each of them leaves through \<^verbatim>\<open>return_if_null\<close> before it reads a field.
\<close>

record S57_geo =
  name :: string
  rect :: rect
  attribs :: "string \<rightharpoonup> string"
  touch :: "nat option"
  centroidIdx :: nat
  centroid :: "pt2 list option"

subsection \<open>Centroids\<close>

text \<open>
  \<^verbatim>\<open>S57_newCentroid\<close>: init or reset. A fresh \<^verbatim>\<open>g_array_new\<close> and
  \<^verbatim>\<open>g_array_set_size(.., 0)\<close> both leave an array of length 0.
\<close>

definition S57_newCentroid :: "'a S57_geo_scheme \<Rightarrow> bool \<times> 'a S57_geo_scheme" where
  "S57_newCentroid geo =
     (let geo1 = (if centroid geo = None then geo\<lparr>centroid := Some []\<rparr>
                  else geo\<lparr>centroid := Some []\<rparr>)
      in (True, geo1\<lparr>centroidIdx := 0\<rparr>))"

text \<open>
  \<^verbatim>\<open>S57_addCentroid\<close>: \<^verbatim>\<open>g_array_append_val\<close> on a \<^verbatim>\<open>NULL\<close> array stores
  nothing (glib returns at once); the function returns \<^verbatim>\<open>TRUE\<close> in both cases.
\<close>

definition S57_addCentroid ::
  "'a S57_geo_scheme \<Rightarrow> double \<Rightarrow> double \<Rightarrow> bool \<times> 'a S57_geo_scheme" where
  "S57_addCentroid geo x y =
     (case centroid geo of
        None \<Rightarrow> (True, geo)
      | Some cs \<Rightarrow> (True, geo\<lparr>centroid := Some (cs @ [(x, y)])\<rparr>))"

text \<open>
  \<^verbatim>\<open>S57_getNextCentroid\<close>: the result is \<open>Some (x, y)\<close> when the function returns
  \<^verbatim>\<open>TRUE\<close> (and has written \<^verbatim>\<open>*x\<close>, \<^verbatim>\<open>*y\<close>), \<open>None\<close> when it returns
  \<^verbatim>\<open>FALSE\<close>.
\<close>

definition S57_getNextCentroid ::
  "'a S57_geo_scheme \<Rightarrow> pt2 option \<times> 'a S57_geo_scheme" where
  "S57_getNextCentroid geo =
     (case centroid geo of
        None \<Rightarrow> (None, geo)
      | Some cs \<Rightarrow>
          if centroidIdx geo < length cs
          then (Some (cs ! centroidIdx geo), geo\<lparr>centroidIdx := centroidIdx geo + 1\<rparr>)
          else (None, geo))"

definition S57_hasCentroid :: "'a S57_geo_scheme \<Rightarrow> bool \<times> 'a S57_geo_scheme" where
  "S57_hasCentroid geo =
     (let geo1 = (if centroid geo = None then snd (S57_newCentroid geo)
                  else geo\<lparr>centroidIdx := 0\<rparr>)
      in (case centroid geo1 of
            None \<Rightarrow> (False, geo1)
          | Some cs \<Rightarrow> if length cs = 0 then (False, geo1) else (True, geo1)))"

text \<open>\<open>n\<close> successive calls of \<^verbatim>\<open>S57_getNextCentroid\<close>, with what each returned.\<close>

fun next_centroids :: "nat \<Rightarrow> 'a S57_geo_scheme \<Rightarrow> pt2 option list \<times> 'a S57_geo_scheme" where
  "next_centroids 0 geo = ([], geo)"
| "next_centroids (Suc n) geo =
     (let (r, geo1) = S57_getNextCentroid geo;
          (rs, geo2) = next_centroids n geo1
      in (r # rs, geo2))"

text \<open>\<^verbatim>\<open>S57_addCentroid\<close> called for each point of a list, in order.\<close>

fun add_centroids :: "'a S57_geo_scheme \<Rightarrow> pt2 list \<Rightarrow> 'a S57_geo_scheme" where
  "add_centroids geo [] = geo"
| "add_centroids geo (p # ps) = add_centroids (snd (S57_addCentroid geo (fst p) (snd p))) ps"

text \<open>The cached centroids of a geo object: none while the array is not allocated.\<close>

definition cached_centroids :: "'a S57_geo_scheme \<Rightarrow> pt2 list" where
  "cached_centroids geo = (case centroid geo of None \<Rightarrow> [] | Some cs \<Rightarrow> cs)"

subsection \<open>Touch\<close>

text \<open>
  The four setters store into the union, the four getters read it. Whatever member is
  named, the cell is the same.
\<close>

definition S57_setTouchTOPMAR :: "'a S57_geo_scheme \<Rightarrow> nat option \<Rightarrow> bool \<times> 'a S57_geo_scheme" where
  "S57_setTouchTOPMAR geo t = (True, geo\<lparr>touch := t\<rparr>)"

definition S57_getTouchTOPMAR :: "'a S57_geo_scheme \<Rightarrow> nat option" where
  "S57_getTouchTOPMAR geo = touch geo"

definition S57_setTouchLIGHTS :: "'a S57_geo_scheme \<Rightarrow> nat option \<Rightarrow> bool \<times> 'a S57_geo_scheme" where
  "S57_setTouchLIGHTS geo t = (True, geo\<lparr>touch := t\<rparr>)"

definition S57_getTouchLIGHTS :: "'a S57_geo_scheme \<Rightarrow> nat option" where
  "S57_getTouchLIGHTS geo = touch geo"

definition S57_setTouchDEPARE :: "'a S57_geo_scheme \<Rightarrow> nat option \<Rightarrow> bool \<times> 'a S57_geo_scheme" where
  "S57_setTouchDEPARE geo t = (True, geo\<lparr>touch := t\<rparr>)"

definition S57_getTouchDEPARE :: "'a S57_geo_scheme \<Rightarrow> nat option" where
  "S57_getTouchDEPARE geo = touch geo"

definition S57_setTouchDEPVAL :: "'a S57_geo_scheme \<Rightarrow> nat option \<Rightarrow> bool \<times> 'a S57_geo_scheme" where
  "S57_setTouchDEPVAL geo t = (True, geo\<lparr>touch := t\<rparr>)"

definition S57_getTouchDEPVAL :: "'a S57_geo_scheme \<Rightarrow> nat option" where
  "S57_getTouchDEPVAL geo = touch geo"

text \<open>The roles, and the setter and getter of each.\<close>

datatype touch_role = TOPMAR | LIGHTS | DEPARE | DEPVAL

fun set_touch :: "touch_role \<Rightarrow> 'a S57_geo_scheme \<Rightarrow> nat option \<Rightarrow> bool \<times> 'a S57_geo_scheme" where
  "set_touch TOPMAR = S57_setTouchTOPMAR"
| "set_touch LIGHTS = S57_setTouchLIGHTS"
| "set_touch DEPARE = S57_setTouchDEPARE"
| "set_touch DEPVAL = S57_setTouchDEPVAL"

fun get_touch :: "touch_role \<Rightarrow> 'a S57_geo_scheme \<Rightarrow> nat option" where
  "get_touch TOPMAR = S57_getTouchTOPMAR"
| "get_touch LIGHTS = S57_getTouchLIGHTS"
| "get_touch DEPARE = S57_getTouchDEPARE"
| "get_touch DEPVAL = S57_getTouchDEPVAL"

subsection \<open>Extent\<close>

text \<open>
  \<^verbatim>\<open>g_assert(0)\<close> ends the program (the sources never define
  \<^verbatim>\<open>G_DISABLE_ASSERT\<close>): a call that reaches one returns no value, and the model
  returns the error that names the check.
\<close>

datatype S57_error = ExtentInvalid | ProjInitFailed

text \<open>
  \<^verbatim>\<open>S57_setExt\<close> (``assume: extent canonical''): the only check is
  \<^verbatim>\<open>isinf(x1) && isinf(x2)\<close>.
\<close>

definition S57_setExt ::
  "'a S57_geo_scheme \<Rightarrow> double \<Rightarrow> double \<Rightarrow> double \<Rightarrow> double
     \<Rightarrow> S57_error + bool \<times> 'a S57_geo_scheme" where
  "S57_setExt geoData x1 y1 x2 y2 =
     (if isinf x1 \<and> isinf x2 then Inl ExtentInvalid
      else Inr (True,
             geoData\<lparr>rect := \<lparr>rect_x1 = x1, rect_y1 = y1, rect_x2 = x2, rect_y2 = y2\<rparr>\<rparr>))"

definition S57_getExt :: "'a S57_geo_scheme \<Rightarrow> double \<times> double \<times> double \<times> double" where
  "S57_getExt geoData =
     (rect_x1 (rect geoData), rect_y1 (rect geoData),
      rect_x2 (rect geoData), rect_y2 (rect geoData))"

subsection \<open>Attributes\<close>

text \<open>\<^verbatim>\<open>#define EMPTY_NUMBER_MARKER "2147483641"  /* MAXINT-6 */\<close>\<close>

definition EMPTY_NUMBER_MARKER :: string where
  "EMPTY_NUMBER_MARKER = ''2147483641''"

text \<open>
  \<^verbatim>\<open>S57_setAtt\<close>: \<^verbatim>\<open>g_datalist_id_set_data_full\<close> stores the new
  \<^verbatim>\<open>GString\<close> under the name and drops the one that was there.
\<close>

definition S57_setAtt :: "'a S57_geo_scheme \<Rightarrow> string \<Rightarrow> string \<Rightarrow> 'a S57_geo_scheme" where
  "S57_setAtt geoData nm val = geoData\<lparr>attribs := (attribs geoData)(nm \<mapsto> val)\<rparr>"

text \<open>
  \<^verbatim>\<open>S57_getAttVal\<close>. The function keeps \<^verbatim>\<open>static int silent = FALSE;\<close> between
  calls, so the model takes the flag and returns it. The result is \<open>None\<close> for a
  \<^verbatim>\<open>NULL\<close> return, else the string of the \<^verbatim>\<open>GString\<close> returned (its
  \<^verbatim>\<open>len\<close> is the length of the string).
\<close>

definition S57_getAttVal ::
  "bool \<Rightarrow> 'a S57_geo_scheme \<Rightarrow> string \<Rightarrow> string option \<times> bool" where
  "S57_getAttVal silent geoData att_name =
     (let att = attribs geoData att_name in
      if att \<noteq> None \<and> att = Some EMPTY_NUMBER_MARKER then (None, silent)
      else if \<not> silent \<and> att \<noteq> None \<and> att = Some [] then (None, True)
      else (att, silent))"

section \<open>S57data.c: the projection\<close>

text \<open>
  The file's statics \<^verbatim>\<open>_pjstr\<close> and \<^verbatim>\<open>_pjdst\<close>, \<open>None\<close> for \<^verbatim>\<open>NULL\<close>. A
  \<^verbatim>\<open>projPJ\<close> is PROJ.4's, of a type \<open>'pj\<close> left open.
\<close>

record 'pj prj_state =
  pjstr :: "string option"
  pjdst :: "'pj option"

text \<open>
  \<^verbatim>\<open>S57_setMercPrj\<close>. Two library calls are parameters: \<open>fmt lat lon\<close> is the string
  that \<^verbatim>\<open>g_strdup_printf(templ, lat, lon)\<close> builds (never \<^verbatim>\<open>NULL\<close>), and
  \<open>pj_init_plus\<close> is PROJ.4's, \<open>None\<close> when it returns \<^verbatim>\<open>NULL\<close>. The result is the
  value returned (\<^verbatim>\<open>TRUE\<close> or \<^verbatim>\<open>FALSE\<close>), or the failed assertion, with the
  statics as the call leaves them.
\<close>

definition S57_setMercPrj ::
  "(string \<Rightarrow> 'pj option) \<Rightarrow> (double \<Rightarrow> double \<Rightarrow> string) \<Rightarrow> double \<Rightarrow> double
     \<Rightarrow> 'pj prj_state \<Rightarrow> (S57_error + bool) \<times> 'pj prj_state" where
  "S57_setMercPrj pj_init_plus fmt lat lon s =
     (if pjstr s \<noteq> None then (Inr False, s)
      else
        let str = fmt lat lon;
            s1 = s\<lparr>pjstr := Some str\<rparr>
        in (case pj_init_plus str of
              None \<Rightarrow> (Inl ProjInitFailed, s1\<lparr>pjdst := None\<rparr>)
            | Some pj \<Rightarrow> (Inr True, s1\<lparr>pjdst := Some pj\<rparr>)))"

text \<open>\<^verbatim>\<open>S57_getPrjStr\<close>\<close>

definition S57_getPrjStr :: "'pj prj_state \<Rightarrow> string option" where
  "S57_getPrjStr s = pjstr s"

text \<open>A run of later calls, each with its own origin; what each returned.\<close>

fun setMercPrj_calls ::
  "(string \<Rightarrow> 'pj option) \<Rightarrow> (double \<Rightarrow> double \<Rightarrow> string) \<Rightarrow> (double \<times> double) list
     \<Rightarrow> 'pj prj_state \<Rightarrow> (S57_error + bool) list \<times> 'pj prj_state" where
  "setMercPrj_calls pj_init_plus fmt [] s = ([], s)"
| "setMercPrj_calls pj_init_plus fmt (ll # lls) s =
     (let (r, s1) = S57_setMercPrj pj_init_plus fmt (fst ll) (snd ll) s;
          (rs, s2) = setMercPrj_calls pj_init_plus fmt lls s1
      in (r # rs, s2))"

section \<open>S57data.c: the primitive buffer\<close>

text \<open>
  \<^verbatim>\<open>struct _prim { int mode; int first; int count; }\<close> and \<^verbatim>\<open>struct _S57_prim\<close>: the
  list of spans and the vertex array, of which only the length matters to the spans
  (a vertex is left open as \<open>'v\<close>). The model is of buffers of fewer than \<open>2 ^ 31\<close>
  vertices (more would take 24 GB): there the conversions between the \<^verbatim>\<open>guint\<close>
  length of the array and the \<^verbatim>\<open>int\<close> fields keep the value, and \<open>first\<close> and
  \<open>count\<close> are integers here.
\<close>

record prim =
  mode :: int
  first :: int
  count :: int

record 'v S57_prim =
  list :: "prim list"
  vertex :: "'v list"

text \<open>\<^verbatim>\<open>#define _QUADRIC_TRANSLATE 0x000A\<close> (S52GL.c): the mode of a translate span.\<close>

definition QUADRIC_TRANSLATE :: int where
  "QUADRIC_TRANSLATE = 10"

text \<open>\<^verbatim>\<open>S57_initPrim\<close>: a new holder, or the old one with both arrays set to size 0.\<close>

definition S57_initPrim :: "'v S57_prim option \<Rightarrow> 'v S57_prim" where
  "S57_initPrim p =
     (case p of None \<Rightarrow> \<lparr>list = [], vertex = []\<rparr>
      | Some q \<Rightarrow> q\<lparr>list := [], vertex := []\<rparr>)"

text \<open>
  \<^verbatim>\<open>S57_begPrim\<close> appends a span that starts at the current end of the vertex
  array. Its \<^verbatim>\<open>count\<close> is not initialised there: \<open>c\<close> stands for whatever the
  stack held.
\<close>

definition S57_begPrim :: "int \<Rightarrow> 'v S57_prim \<Rightarrow> int \<Rightarrow> bool \<times> 'v S57_prim" where
  "S57_begPrim c p m =
     (True, p\<lparr>list := list p @ [\<lparr>mode = m, first = int (length (vertex p)), count = c\<rparr>]\<rparr>)"

text \<open>
  \<^verbatim>\<open>S57_endPrim\<close> sets the count of the last span. With no span in the list the
  code indexes the array at \<^verbatim>\<open>len-1\<close> and writes outside it: no result.
\<close>

definition S57_endPrim :: "'v S57_prim \<Rightarrow> (bool \<times> 'v S57_prim) option" where
  "S57_endPrim p =
     (if list p = [] then None
      else
        let q = last (list p)
        in Some (True,
             p\<lparr>list := butlast (list p) @ [q\<lparr>count := int (length (vertex p)) - first q\<rparr>]\<rparr>))"

text \<open>\<^verbatim>\<open>S57_addPrimVertex\<close>: one more vertex at the end.\<close>

definition S57_addPrimVertex :: "'v S57_prim \<Rightarrow> 'v \<Rightarrow> bool \<times> 'v S57_prim" where
  "S57_addPrimVertex p v = (True, p\<lparr>vertex := vertex p @ [v]\<rparr>)"

text \<open>
  \<^verbatim>\<open>S57_getPrimIdx\<close>: the span at index \<open>i\<close>, \<open>None\<close> for \<^verbatim>\<open>FALSE\<close>.
\<close>

definition S57_getPrimIdx :: "'v S57_prim \<Rightarrow> nat \<Rightarrow> (int \<times> int \<times> int) option" where
  "S57_getPrimIdx p i =
     (if i \<ge> length (list p) then None
      else Some (mode (list p ! i), first (list p ! i), count (list p ! i)))"

text \<open>
  The calls that build a buffer (\<^verbatim>\<open>_glBegin\<close>, \<^verbatim>\<open>_vertex3f\<close>/\<^verbatim>\<open>_vertex3d\<close>,
  \<^verbatim>\<open>_glEnd\<close> of S52GL.c go to these three), and a run of them on a buffer. The run
  stops with \<open>None\<close> where \<^verbatim>\<open>S57_endPrim\<close> has no span.
\<close>

datatype 'v prim_op = BegPrim int | AddPrimVertex 'v | EndPrim

fun run_prim :: "int \<Rightarrow> 'v S57_prim \<Rightarrow> 'v prim_op list \<Rightarrow> 'v S57_prim option" where
  "run_prim c p [] = Some p"
| "run_prim c p (BegPrim m # ops) = run_prim c (snd (S57_begPrim c p m)) ops"
| "run_prim c p (AddPrimVertex v # ops) = run_prim c (snd (S57_addPrimVertex p v)) ops"
| "run_prim c p (EndPrim # ops) =
     (case S57_endPrim p of None \<Rightarrow> None | Some (r, q) \<Rightarrow> run_prim c q ops)"

text \<open>
  Properly bracketed: every span is opened, filled and closed before the next, and the
  last one is closed. The flag says whether a span is open.
\<close>

fun bracketed :: "bool \<Rightarrow> 'v prim_op list \<Rightarrow> bool" where
  "bracketed opened [] = (\<not> opened)"
| "bracketed opened (BegPrim m # ops) = (\<not> opened \<and> bracketed True ops)"
| "bracketed opened (AddPrimVertex v # ops) = (opened \<and> bracketed True ops)"
| "bracketed opened (EndPrim # ops) = (opened \<and> bracketed False ops)"

text \<open>The sum of the counts of the spans.\<close>

definition sum_count :: "prim list \<Rightarrow> int" where
  "sum_count ps = sum_list (map count ps)"

text \<open>The number of spans whose mode is the translate sentinel.\<close>

definition translate_spans :: "prim list \<Rightarrow> int" where
  "translate_spans ps = int (length (filter (\<lambda>q. mode q = QUADRIC_TRANSLATE) ps))"

section \<open>S52GL.c: the frame cycle and the pick index\<close>

text \<open>
  Modelled from the spec: the enum \<^verbatim>\<open>S52_GL_cycle\<close> is declared in S52GL.h, which is
  not among the sources; the spec names its four states, and S52GL.c uses these four
  names.
\<close>

datatype S52_GL_cycle = S52_GL_NONE | S52_GL_DRAW | S52_GL_LAST | S52_GL_PICK

text \<open>
  \<^verbatim>\<open>typedef struct col { GLubyte r, g, b, a; } col;\<close>, the colour member of the union
  \<^verbatim>\<open>cIdx\<close> (fields r, g, b, a). A \<^verbatim>\<open>GLubyte\<close> is 8 bits wide: \<open>+ 1\<close> wraps from
  255 to 0.
\<close>

record col =
  col_r :: "8 word"
  col_g :: "8 word"
  col_b :: "8 word"
  col_a :: "8 word"

text \<open>
  The statics of S52GL.c that the cycle and the pick read or write. \<open>vp\<close> is
  \<^verbatim>\<open>GLuint _vp[4]\<close> (x, y, width, height), \<open>fb_pixels\<close> says whether the pixel
  buffer pointer is not \<^verbatim>\<open>NULL\<close>, \<open>objPick\<close> is the pointer array of the objects
  picked (an object is of a type \<open>'obj\<close> left open).
\<close>

record 'obj gl_state =
  GL_BEGIN :: bool
  crnt_GL_cycle :: S52_GL_cycle
  identity_MODELVIEW :: bool
  cIdx :: col
  objPick :: "'obj list"
  nobj :: "32 word"
  vp :: "32 word \<times> 32 word \<times> 32 word \<times> 32 word"
  fb_pixels_size :: "32 word"
  fb_pixels :: bool
  fb_update :: bool

text \<open>
  The checks of \<^verbatim>\<open>S52_GL_begin\<close> and \<^verbatim>\<open>S52_GL_end\<close>: each prints its message and
  reaches \<^verbatim>\<open>g_assert(0)\<close>, with no \<^verbatim>\<open>return\<close> after it. The first four are the
  calls out of step (\<^verbatim>\<open>CHECK_GL_END\<close>: ``already inside glBegin()'',
  \<^verbatim>\<open>CHECK_GL_BEGIN\<close>: ``not inside glBegin()'', ``S52\_GL\_cycle out of sync'',
  ``S52\_GL\_mode out of sync''); the last is ``pixels buffer overflow''.

  \<^verbatim>\<open>g_assert\<close> is the macro of glib: it ends the process (\<^verbatim>\<open>abort\<close>), unless the
  build defines \<^verbatim>\<open>G_DISABLE_ASSERT\<close>, which makes it empty, so that the call goes on
  with the statement after it (the comment at the overflow check: ``the assert() is
  removed in the release''). The models take the build as their first argument;
  \<open>Inl\<close> of a check is the process ended there, nothing being returned to the caller.
\<close>

datatype sync_check = Already_inside_glBegin | Not_inside_glBegin
  | Cycle_out_of_sync | Mode_out_of_sync

datatype gl_abort = CycleOutOfSync sync_check | PixelsBufferOverflow

text \<open>\<^verbatim>\<open>#define RGBA 4\<close>, \<^verbatim>\<open>static int _fb_format = RGBA;\<close>\<close>

definition fb_format :: "32 word" where
  "fb_format = 4"

text \<open>
  \<^verbatim>\<open>S52_GL_begin\<close>, as far as the statics above go; \<open>GL_VIEWPORT\<close> is what
  \<^verbatim>\<open>glGetIntegerv(GL_VIEWPORT, ..)\<close> answers. The GL calls, \<^verbatim>\<open>S52_GL_init\<close>,
  the projection and the symbol creation in between assign none of these statics
  (\<^verbatim>\<open>_checkError\<close> acts only in a build with \<^verbatim>\<open>S52_DEBUG\<close>, on an error that
  the GL has pending; the model is of a GL with none).
  The result is the value returned, which can only be \<^verbatim>\<open>TRUE\<close>, or the check at
  which the process was ended, with the statics as the call leaves them.
\<close>

definition S52_GL_begin ::
  "bool \<Rightarrow> 32 word \<times> 32 word \<times> 32 word \<times> 32 word \<Rightarrow> S52_GL_cycle \<Rightarrow> 'obj gl_state
     \<Rightarrow> (gl_abort + bool) \<times> 'obj gl_state" where
  "S52_GL_begin G_DISABLE_ASSERT GL_VIEWPORT cycle s =
     (if GL_BEGIN s \<and> \<not> G_DISABLE_ASSERT then (Inl (CycleOutOfSync Already_inside_glBegin), s)
      else
        let s1 = s\<lparr>GL_BEGIN := True\<rparr> in
        if S52_GL_NONE \<noteq> crnt_GL_cycle s1 \<and> \<not> G_DISABLE_ASSERT
        then (Inl (CycleOutOfSync Cycle_out_of_sync), s1)
        else
          let s2 = s1\<lparr>crnt_GL_cycle := cycle, identity_MODELVIEW := False\<rparr>;
              s3 = (if S52_GL_PICK = crnt_GL_cycle s2
                    then s2\<lparr>cIdx := \<lparr>col_r = 0, col_g = 0, col_b = 0, col_a = 0\<rparr>, objPick := []\<rparr>
                    else s2);
              s4 = (if vp s3 = (0, 0, 0, 0) then s3\<lparr>vp := GL_VIEWPORT\<rparr> else s3);
              overflow =
                (fb_pixels_size s4 < fst (snd (snd (vp s4))) * snd (snd (snd (vp s4))) * fb_format);
              s5 = (if overflow then s4\<lparr>fb_pixels := False\<rparr> else s4)
          in
          if overflow \<and> \<not> G_DISABLE_ASSERT then (Inl PixelsBufferOverflow, s5)
          else
            let s6 = (if S52_GL_DRAW = crnt_GL_cycle s5 then s5
                      else if S52_GL_LAST = crnt_GL_cycle s5 \<and> fb_update s5
                      then s5\<lparr>fb_update := False\<rparr>
                      else s5)
            in (Inr True, s6))"

text \<open>\<^verbatim>\<open>S52_GL_end\<close>\<close>

definition S52_GL_end ::
  "bool \<Rightarrow> S52_GL_cycle \<Rightarrow> 'obj gl_state \<Rightarrow> (gl_abort + bool) \<times> 'obj gl_state" where
  "S52_GL_end G_DISABLE_ASSERT cycle s =
     (if \<not> GL_BEGIN s \<and> \<not> G_DISABLE_ASSERT then (Inl (CycleOutOfSync Not_inside_glBegin), s)
      else if cycle \<noteq> crnt_GL_cycle s \<and> \<not> G_DISABLE_ASSERT
      then (Inl (CycleOutOfSync Mode_out_of_sync), s)
      else
        let s1 = s\<lparr>crnt_GL_cycle := cycle\<rparr>;
            s2 = (if S52_GL_DRAW = crnt_GL_cycle s1 then s1\<lparr>fb_update := True\<rparr> else s1)
        in (Inr True, s2\<lparr>crnt_GL_cycle := S52_GL_NONE, GL_BEGIN := False\<rparr>))"

text \<open>
  \<^verbatim>\<open>S52_GL_draw\<close>. In a pick cycle the red byte of the index is incremented first;
  the renderers called by the command walk send the index as the colour
  (\<^verbatim>\<open>_glColor4ub\<close>) and assign none of the statics; then \<open>glReadPixels\<close>, here the
  red bytes of the 8 by 8 pixels read back after the object is drawn, decides whether
  the object joins the pick list.
\<close>

definition S52_GL_draw ::
  "('obj gl_state \<Rightarrow> 'obj \<Rightarrow> 8 word list) \<Rightarrow> 'obj \<Rightarrow> 'obj gl_state \<Rightarrow> bool \<times> 'obj gl_state" where
  "S52_GL_draw glReadPixels obj s =
     (let s1 = (if S52_GL_PICK = crnt_GL_cycle s
                then s\<lparr>cIdx := (cIdx s)\<lparr>col_r := col_r (cIdx s) + 1\<rparr>\<rparr> else s);
          s2 = s1\<lparr>nobj := nobj s1 + 1\<rparr>;
          s3 = (if S52_GL_PICK = crnt_GL_cycle s2
                then (if col_r (cIdx s2) \<in> set (take 64 (glReadPixels s2 obj))
                      then s2\<lparr>objPick := objPick s2 @ [obj]\<rparr> else s2)
                else s2)
      in (True, s3))"

text \<open>
  The colour index that an object is drawn with: the red byte while the renderers of
  its \<^verbatim>\<open>S52_GL_draw\<close> run, which is the byte that the call leaves.
\<close>

definition index_drawn ::
  "('obj gl_state \<Rightarrow> 'obj \<Rightarrow> 8 word list) \<Rightarrow> 'obj \<Rightarrow> 'obj gl_state \<Rightarrow> 8 word" where
  "index_drawn glReadPixels obj s = col_r (cIdx (snd (S52_GL_draw glReadPixels obj s)))"

text \<open>
  The objects of a scene drawn one after the other: the index of each, and the
  statics at the end.
\<close>

fun draw_all ::
  "('obj gl_state \<Rightarrow> 'obj \<Rightarrow> 8 word list) \<Rightarrow> 'obj list \<Rightarrow> 'obj gl_state
     \<Rightarrow> 8 word list \<times> 'obj gl_state" where
  "draw_all glReadPixels [] s = ([], s)"
| "draw_all glReadPixels (obj # objs) s =
     (let s1 = snd (S52_GL_draw glReadPixels obj s);
          (ixs, s2) = draw_all glReadPixels objs s1
      in (index_drawn glReadPixels obj s # ixs, s2))"

text \<open>
  A pick cycle from its \<^verbatim>\<open>S52_GL_begin(S52_GL_PICK)\<close> on: the indices of the objects
  drawn, \<open>None\<close> when the process was ended in the begin.
\<close>

definition pick_cycle ::
  "bool \<Rightarrow> 32 word \<times> 32 word \<times> 32 word \<times> 32 word \<Rightarrow> ('obj gl_state \<Rightarrow> 'obj \<Rightarrow> 8 word list)
     \<Rightarrow> 'obj list \<Rightarrow> 'obj gl_state \<Rightarrow> 8 word list option" where
  "pick_cycle G_DISABLE_ASSERT GL_VIEWPORT glReadPixels objs s =
     (case S52_GL_begin G_DISABLE_ASSERT GL_VIEWPORT S52_GL_PICK s of
        (Inl e, s1) \<Rightarrow> None
      | (Inr ok, s1) \<Rightarrow> Some (fst (draw_all glReadPixels objs s1)))"

section \<open>The arithmetic of C doubles\<close>













section \<open>S52GL.c: clipping a segment to the view\<close>





















section \<open>S52GL.c: the complex line\<close>





















section \<open>Concrete inputs\<close>

text \<open>A geo object as \<^verbatim>\<open>S57_setPOINT\<close> leaves it: infinite extent, nothing else set.\<close>

definition geo0 :: S57_geo where
  "geo0 = \<lparr>name = ''BOYLAT'',
     rect = \<lparr>rect_x1 = PInf, rect_y1 = PInf, rect_x2 = MInf, rect_y2 = MInf\<rparr>,
     attribs = Map.empty, touch = None, centroidIdx = 0, centroid = None\<rparr>"

text \<open>
  The projection statics before the first chart is loaded, a \<^verbatim>\<open>pj_init_plus\<close> that
  succeeds, and a format that ignores its arguments.
\<close>

definition prj0 :: "nat prj_state" where
  "prj0 = \<lparr>pjstr = None, pjdst = None\<rparr>"

definition pj_init_ok :: "string \<Rightarrow> nat option" where
  "pj_init_ok str = Some 0"

definition fmt0 :: "double \<Rightarrow> double \<Rightarrow> string" where
  "fmt0 lat lon = ''+proj=merc''"

text \<open>
  The three calls by which the symbol builder of S52GL.c places a sub-symbol
  (\<^verbatim>\<open>_glBegin(_QUADRIC_TRANSLATE, vertex); _vertex3f(data, vertex); _glEnd(vertex);\<close>).
\<close>

definition translate_ops :: "(real \<times> real \<times> real) prim_op list" where
  "translate_ops = [BegPrim QUADRIC_TRANSLATE, AddPrimVertex (1, 2, 0), EndPrim]"

text \<open>
  The statics between two frames, with an 800 by 600 viewport and a pixel buffer of
  that size, and the statics inside a pick cycle; a read-back that finds no pixel; a
  scene of 257 objects.
\<close>

definition s_none :: "nat gl_state" where
  "s_none = \<lparr>GL_BEGIN = False, crnt_GL_cycle = S52_GL_NONE, identity_MODELVIEW = False,
     cIdx = \<lparr>col_r = 0, col_g = 0, col_b = 0, col_a = 0\<rparr>, objPick = [], nobj = 0,
     vp = (0, 0, 800, 600), fb_pixels_size = 1920000, fb_pixels = True, fb_update = True\<rparr>"

definition s_pick :: "nat gl_state" where
  "s_pick = s_none\<lparr>GL_BEGIN := True, crnt_GL_cycle := S52_GL_PICK\<rparr>"

definition vp0 :: "32 word \<times> 32 word \<times> 32 word \<times> 32 word" where
  "vp0 = (0, 0, 800, 600)"

definition no_pixels :: "nat gl_state \<Rightarrow> nat \<Rightarrow> 8 word list" where
  "no_pixels s obj = []"

definition scene257 :: "nat list" where
  "scene257 = [0..<257]"













section \<open>Theorems: the centroid cache\<close>

lemma next_centroids_from:
  "centroid geo = Some cs \<Longrightarrow>
   fst (next_centroids n geo) =
     map Some (take n (drop (centroidIdx geo) cs)) @
     replicate (n - (length cs - centroidIdx geo)) None"
proof (induction n arbitrary: geo)
  case 0
  then show ?case by simp
next
  case (Suc n)
  show ?case
  proof (cases "centroidIdx geo < length cs")
    case True
    let ?g = "geo\<lparr>centroidIdx := centroidIdx geo + 1\<rparr>"
    have c: "centroid ?g = Some cs" using Suc.prems by simp
    have step: "S57_getNextCentroid geo = (Some (cs ! centroidIdx geo), ?g)"
      using True Suc.prems by (simp add: S57_getNextCentroid_def)
    have d: "drop (centroidIdx geo) cs = cs ! centroidIdx geo # drop (Suc (centroidIdx geo)) cs"
      using True by (simp add: Cons_nth_drop_Suc)
    have "Suc n - (length cs - centroidIdx geo) = n - (length cs - Suc (centroidIdx geo))"
      using True by arith
    then show ?thesis
      using Suc.IH [OF c] step d by (simp add: split_beta)
  next
    case False
    have step: "S57_getNextCentroid geo = (None, geo)"
      using False Suc.prems by (simp add: S57_getNextCentroid_def)
    have "Suc n - (length cs - centroidIdx geo) = Suc (n - (length cs - centroidIdx geo))"
      using False by arith
    then show ?thesis
      using Suc.IH [OF Suc.prems] step False by (simp add: split_beta)
  qed
qed

lemma centroid_add_centroids:
  "centroid geo = Some cs \<Longrightarrow> centroid (add_centroids geo ps) = Some (cs @ ps)"
  by (induction ps arbitrary: geo cs) (simp_all add: S57_addCentroid_def)

lemma hasCentroid_state:
  "centroid (snd (S57_hasCentroid geo)) = Some (cached_centroids geo) \<and>
   centroidIdx (snd (S57_hasCentroid geo)) = 0"
  by (cases "centroid geo")
     (simp_all add: S57_hasCentroid_def S57_newCentroid_def cached_centroids_def Let_def)

text \<open>
  C10, as the code has it. For every geo object, \<^verbatim>\<open>S57_hasCentroid\<close> returns
  \<^verbatim>\<open>TRUE\<close> exactly when a centroid is cached: with no array yet it allocates an
  empty one and returns \<^verbatim>\<open>FALSE\<close>, and with an array that is empty it returns
  \<^verbatim>\<open>FALSE\<close> too. It leaves the cursor at the start. From there, \<open>n\<close> successive
  calls of \<^verbatim>\<open>S57_getNextCentroid\<close> yield the first \<open>n\<close> cached centroids in the
  order of the array, and \<^verbatim>\<open>FALSE\<close> from the call after the last centroid on. The
  order of the array is the order of insertion: after \<^verbatim>\<open>S57_newCentroid\<close>, the
  points added by \<^verbatim>\<open>S57_addCentroid\<close> are the cached centroids, in the order
  added.
\<close>

theorem centroid_iteration:
  "fst (S57_hasCentroid geo) = (cached_centroids geo \<noteq> []) \<and>
   centroidIdx (snd (S57_hasCentroid geo)) = 0 \<and>
   centroid (snd (S57_hasCentroid geo)) = Some (cached_centroids geo) \<and>
   fst (next_centroids n (snd (S57_hasCentroid geo))) =
     map Some (take n (cached_centroids geo)) @
     replicate (n - length (cached_centroids geo)) None \<and>
   cached_centroids (add_centroids (snd (S57_newCentroid geo)) ps) = ps"
proof -
  have a: "fst (S57_hasCentroid geo) = (cached_centroids geo \<noteq> [])"
    by (cases "centroid geo")
       (simp_all add: S57_hasCentroid_def S57_newCentroid_def cached_centroids_def Let_def)
  have b: "fst (next_centroids n (snd (S57_hasCentroid geo))) =
     map Some (take n (cached_centroids geo)) @
     replicate (n - length (cached_centroids geo)) None"
    using next_centroids_from [of "snd (S57_hasCentroid geo)" "cached_centroids geo" n]
      hasCentroid_state [of geo] by simp
  have c: "cached_centroids (add_centroids (snd (S57_newCentroid geo)) ps) = ps"
    using centroid_add_centroids [of "snd (S57_newCentroid geo)" "[]" ps]
    by (simp add: S57_newCentroid_def cached_centroids_def)
  show ?thesis using a b c hasCentroid_state [of geo] by simp
qed

text \<open>
  C10 as stated fails: on a geo object whose centroid array exists and is empty, as
  \<^verbatim>\<open>S57_newCentroid\<close> leaves it, \<^verbatim>\<open>S57_hasCentroid\<close> returns \<^verbatim>\<open>FALSE\<close>.
\<close>

theorem centroid_empty_counterexample:
  "centroid (snd (S57_newCentroid geo0)) = Some [] \<and>
   fst (S57_hasCentroid (snd (S57_newCentroid geo0))) = False"
  by (simp add: S57_newCentroid_def S57_hasCentroid_def geo0_def Let_def)

section \<open>Theorems: touch, extent, attributes, projection\<close>

text \<open>
  C5, as the code has it. For every geo object and every touch role, the setter
  stores the new value and returns \<^verbatim>\<open>TRUE\<close>, whatever was stored before: there
  is no check and no error. Setting the same value twice leaves what setting it once
  leaves, and a second, different value replaces the first. The four roles are the
  members of one union, so an object holds one touch in all, and the value set under
  one role is the value read under every role.
\<close>

theorem touch_set_overwrites:
  "fst (set_touch role geo t) = True \<and>
   get_touch role (snd (set_touch role geo t)) = t \<and>
   set_touch role (snd (set_touch role geo t)) t = set_touch role geo t \<and>
   get_touch role (snd (set_touch role (snd (set_touch role geo t)) t2)) = t2 \<and>
   get_touch role2 (snd (set_touch role geo t)) = t"
  by (cases role; cases role2)
     (simp_all add: S57_setTouchTOPMAR_def S57_getTouchTOPMAR_def S57_setTouchLIGHTS_def
       S57_getTouchLIGHTS_def S57_setTouchDEPARE_def S57_getTouchDEPARE_def
       S57_setTouchDEPVAL_def S57_getTouchDEPVAL_def)

text \<open>
  C5 as stated fails: with the touch of the role set to the object at address 1,
  setting it to the object at address 2 returns \<^verbatim>\<open>TRUE\<close> and stores 2.
\<close>

theorem touch_overwrite_counterexample:
  "S57_getTouchTOPMAR (snd (S57_setTouchTOPMAR geo0 (Some 1))) = Some 1 \<and>
   fst (S57_setTouchTOPMAR (snd (S57_setTouchTOPMAR geo0 (Some 1))) (Some 2)) = True \<and>
   S57_getTouchTOPMAR
     (snd (S57_setTouchTOPMAR (snd (S57_setTouchTOPMAR geo0 (Some 1))) (Some 2))) = Some 2"
  by (simp add: S57_setTouchTOPMAR_def S57_getTouchTOPMAR_def geo0_def)

text \<open>
  C8, as the code has it. \<^verbatim>\<open>S57_setExt\<close> stops at its assertion, storing nothing,
  when x1 (W) and x2 (E) are both infinite. Every other extent is stored as given and
  the call returns \<^verbatim>\<open>TRUE\<close>: the function assumes a canonical extent and does not
  compare W with E or S with N, nor look at y1 and y2.
\<close>

theorem setExt_checks_only_both_x_infinite:
  "(isinf x1 \<and> isinf x2 \<longrightarrow> S57_setExt geoData x1 y1 x2 y2 = Inl ExtentInvalid) \<and>
   (\<not> (isinf xa \<and> isinf xb) \<longrightarrow>
      (\<exists>geo1. S57_setExt geoData xa ya xb yb = Inr (True, geo1) \<and>
         S57_getExt geo1 = (xa, ya, xb, yb)))"
  by (simp add: S57_setExt_def S57_getExt_def)

theorem setExt_checks_only_both_x_infinite_witness:
  "isinf PInf \<and> isinf MInf \<and>
   S57_setExt geo0 PInf PInf MInf MInf = Inl ExtentInvalid \<and>
   \<not> (isinf PInf \<and> isinf (Finite 0)) \<and>
   (\<exists>geo1. S57_setExt geo0 PInf (Finite 0) (Finite 0) MInf = Inr (True, geo1) \<and>
      S57_getExt geo1 = (PInf, Finite 0, Finite 0, MInf))"
  using setExt_checks_only_both_x_infinite
    [of PInf MInf geo0 PInf MInf PInf "Finite 0" "Finite 0" MInf]
  by simp

text \<open>
  C8 as stated fails: the extent with W = 5 > E = 1 and S = 7 > N = 2 is stored and the
  call returns \<^verbatim>\<open>TRUE\<close>.
\<close>

theorem setExt_counterexample:
  "S57_setExt geo0 (Finite 5) (Finite 7) (Finite 1) (Finite 2) =
     Inr (True, geo0\<lparr>rect := \<lparr>rect_x1 = Finite 5, rect_y1 = Finite 7,
                               rect_x2 = Finite 1, rect_y2 = Finite 2\<rparr>\<rparr>)"
  by (simp add: S57_setExt_def)

text \<open>
  C4. The lookup returns no value for a name that is not stored and for the marker
  \<^verbatim>\<open>"2147483641"\<close>. For the empty string it returns no value only while the
  function's \<^verbatim>\<open>silent\<close> flag is not set, which is once per program: the
  \<^verbatim>\<open>return NULL\<close> sits inside the block that prints the note once. On an object
  whose \<^verbatim>\<open>OBJNAM\<close> is the empty string, the first lookup returns no value and
  sets the flag; the next lookup returns the empty string.
\<close>

theorem getAttVal_empty_second_call:
  "S57_getAttVal False (S57_setAtt geo0 ''OBJNAM'' []) ''OBJNAM'' = (None, True) \<and>
   S57_getAttVal True (S57_setAtt geo0 ''OBJNAM'' []) ''OBJNAM'' = (Some [], True)"
  by (simp add: S57_getAttVal_def S57_setAtt_def geo0_def EMPTY_NUMBER_MARKER_def)

lemma setMercPrj_set:
  "pjstr s \<noteq> None \<Longrightarrow> S57_setMercPrj pj fmt lat lon s = (Inr False, s)"
  by (simp add: S57_setMercPrj_def)

lemma setMercPrj_calls_set:
  "pjstr s \<noteq> None \<Longrightarrow>
   setMercPrj_calls pj fmt lls s = (replicate (length lls) (Inr False), s)"
  by (induction lls) (simp_all add: setMercPrj_set)

lemma setMercPrj_ok:
  "S57_setMercPrj pj fmt lat lon s = (Inr True, s1) \<Longrightarrow>
   pjstr s = None \<and> pjstr s1 = Some (fmt lat lon)"
  by (auto simp: S57_setMercPrj_def Let_def split: if_splits option.splits)

text \<open>
  C7. After a call of \<^verbatim>\<open>S57_setMercPrj\<close> that returned \<^verbatim>\<open>TRUE\<close>, every later
  call, with whatever origin, returns \<^verbatim>\<open>FALSE\<close> (after its warning) and leaves
  the statics as they were; so does any run of later calls, and the projection string
  stays the one of the first call. (Of the other functions of the file only
  \<^verbatim>\<open>S57_donePROJ\<close>, which ends the session, assigns \<^verbatim>\<open>_pjstr\<close>.)
\<close>

theorem setMercPrj_once:
  "S57_setMercPrj pj fmt lat lon s = (Inr True, s1) \<Longrightarrow>
   S57_setMercPrj pj fmt lat2 lon2 s1 = (Inr False, s1) \<and>
   setMercPrj_calls pj fmt lls s1 = (replicate (length lls) (Inr False), s1) \<and>
   S57_getPrjStr s1 = Some (fmt lat lon)"
  using setMercPrj_ok [of pj fmt lat lon s s1] setMercPrj_set [of s1]
    setMercPrj_calls_set [of s1]
  by (simp add: S57_getPrjStr_def)

theorem setMercPrj_once_witness:
  "S57_setMercPrj pj_init_ok fmt0 (Finite 46) (Finite (-71)) prj0 =
     (Inr True, \<lparr>pjstr = Some ''+proj=merc'', pjdst = Some 0\<rparr>) \<and>
   S57_setMercPrj pj_init_ok fmt0 (Finite 10) (Finite 20)
       \<lparr>pjstr = Some ''+proj=merc'', pjdst = Some 0\<rparr> =
     (Inr False, \<lparr>pjstr = Some ''+proj=merc'', pjdst = Some 0\<rparr>) \<and>
   S57_getPrjStr \<lparr>pjstr = Some ''+proj=merc'', pjdst = Some (0::nat)\<rparr> = Some ''+proj=merc''"
proof -
  have h: "S57_setMercPrj pj_init_ok fmt0 (Finite 46) (Finite (-71)) prj0 =
     (Inr True, \<lparr>pjstr = Some ''+proj=merc'', pjdst = Some 0\<rparr>)"
    by (simp add: S57_setMercPrj_def prj0_def pj_init_ok_def fmt0_def)
  from setMercPrj_once [OF h, of "Finite 10" "Finite 20" "[]"] h
  show ?thesis by (simp add: fmt0_def)
qed

section \<open>Theorems: the primitive buffer\<close>

text \<open>
  The invariant of a run: with no span open the counts add up to the vertex count;
  with a span open the counts of the closed spans add up to where the open one starts.
\<close>

lemma sum_count_snoc: "sum_count (ps @ [q]) = sum_count ps + count q"
  by (simp add: sum_count_def)

lemma run_prim_bracketed:
  "bracketed opened ops \<Longrightarrow>
   (if opened then list p \<noteq> [] \<and> sum_count (butlast (list p)) = first (last (list p))
    else sum_count (list p) = int (length (vertex p))) \<Longrightarrow>
   \<exists>q. run_prim c p ops = Some q \<and> sum_count (list q) = int (length (vertex q))"
proof (induction ops arbitrary: opened p)
  case Nil
  then show ?case by simp
next
  case (Cons x ops)
  show ?case
  proof (cases x)
    case (BegPrim m)
    with Cons.prems have o: "\<not> opened" and b: "bracketed True ops" by simp_all
    have "if True then list (snd (S57_begPrim c p m)) \<noteq> [] \<and>
        sum_count (butlast (list (snd (S57_begPrim c p m)))) =
        first (last (list (snd (S57_begPrim c p m))))
      else sum_count (list (snd (S57_begPrim c p m))) =
        int (length (vertex (snd (S57_begPrim c p m))))"
      using Cons.prems(2) o by (simp add: S57_begPrim_def)
    from Cons.IH [OF b this] show ?thesis using BegPrim by simp
  next
    case (AddPrimVertex w)
    with Cons.prems have o: "opened" and b: "bracketed True ops" by simp_all
    have "if True then list (snd (S57_addPrimVertex p w)) \<noteq> [] \<and>
        sum_count (butlast (list (snd (S57_addPrimVertex p w)))) =
        first (last (list (snd (S57_addPrimVertex p w))))
      else sum_count (list (snd (S57_addPrimVertex p w))) =
        int (length (vertex (snd (S57_addPrimVertex p w))))"
      using Cons.prems(2) o by (simp add: S57_addPrimVertex_def)
    from Cons.IH [OF b this] show ?thesis using AddPrimVertex by simp
  next
    case EndPrim
    with Cons.prems have o: "opened" and b: "bracketed False ops" by simp_all
    from Cons.prems(2) o have ne: "list p \<noteq> []"
      and s: "sum_count (butlast (list p)) = first (last (list p))"
      by simp_all
    let ?q = "p\<lparr>list := butlast (list p) @
        [(last (list p))\<lparr>count := int (length (vertex p)) - first (last (list p))\<rparr>]\<rparr>"
    have e: "S57_endPrim p = Some (True, ?q)"
      using ne by (simp add: S57_endPrim_def Let_def)
    have "if False then list ?q \<noteq> [] \<and> sum_count (butlast (list ?q)) = first (last (list ?q))
      else sum_count (list ?q) = int (length (vertex ?q))"
      using s by (simp add: sum_count_snoc)
    from Cons.IH [OF b this] show ?thesis using EndPrim e by simp
  qed
qed

text \<open>
  C9, as the code has it. A properly bracketed run of \<^verbatim>\<open>S57_begPrim\<close>,
  \<^verbatim>\<open>S57_addPrimVertex\<close>, \<^verbatim>\<open>S57_endPrim\<close> on a buffer that \<^verbatim>\<open>S57_initPrim\<close>
  has emptied goes through, and in the buffer built the counts of the spans add up
  to the vertex count (so to at most the vertex count). The count of a translate span
  is the number of vertices put between its begin and its end, as for any other mode:
  the one vertex that it consumes is already counted.
\<close>

theorem prim_sum_count:
  "bracketed False ops \<Longrightarrow>
   \<exists>q. run_prim c (S57_initPrim p0) ops = Some q \<and>
       sum_count (list q) = int (length (vertex q)) \<and>
       sum_count (list q) \<le> int (length (vertex q))"
proof -
  assume b: "bracketed False ops"
  have "if False then list (S57_initPrim p0) \<noteq> [] \<and>
      sum_count (butlast (list (S57_initPrim p0))) = first (last (list (S57_initPrim p0)))
    else sum_count (list (S57_initPrim p0)) = int (length (vertex (S57_initPrim p0)))"
    by (cases p0) (simp_all add: S57_initPrim_def sum_count_def)
  from run_prim_bracketed [OF b this, of c] show ?thesis by auto
qed

theorem prim_sum_count_witness:
  "bracketed False translate_ops \<and>
   (\<exists>q. run_prim 0 (S57_initPrim None) translate_ops = Some q \<and>
       sum_count (list q) = int (length (vertex q)) \<and>
       sum_count (list q) \<le> int (length (vertex q)))"
proof -
  have b: "bracketed False translate_ops" by (simp add: translate_ops_def)
  from prim_sum_count [OF b, of 0 None] b show ?thesis by simp
qed

text \<open>
  C9 with one more vertex counted for each translate span fails: the three calls that
  place a sub-symbol build a buffer of one vertex whose only span has mode translate
  and count 1, so the counts plus one for the translate span make 2.
\<close>

theorem prim_sum_translate_counterexample:
  "bracketed False translate_ops \<and>
   run_prim 0 (S57_initPrim None) translate_ops =
     Some \<lparr>list = [\<lparr>mode = QUADRIC_TRANSLATE, first = 0, count = 1\<rparr>],
           vertex = [(1, 2, 0)]\<rparr> \<and>
   sum_count [\<lparr>mode = QUADRIC_TRANSLATE, first = 0, count = 1\<rparr>] +
   translate_spans [\<lparr>mode = QUADRIC_TRANSLATE, first = 0, count = 1\<rparr>] = 2 \<and>
   int (length [(1::real, 2::real, 0::real)]) = 1"
  by (simp add: translate_ops_def S57_initPrim_def S57_begPrim_def S57_addPrimVertex_def
      S57_endPrim_def sum_count_def translate_spans_def Let_def)

section \<open>Theorems: the frame cycle and the pick index\<close>

lemma begin_none_ok:
  "fst (S52_GL_begin da vp0 c s_none) = Inr True \<and>
   crnt_GL_cycle (snd (S52_GL_begin da vp0 c s_none)) = c \<and>
   col_r (cIdx (snd (S52_GL_begin da vp0 c s_none))) = 0"
  by (cases c) (simp_all add: S52_GL_begin_def s_none_def Let_def fb_format_def)

lemma begin_returns_True: "fst (S52_GL_begin da gvp cycle s) \<noteq> Inr False"
  by (simp add: S52_GL_begin_def Let_def)

lemma begin_assert:
  "crnt_GL_cycle s \<noteq> S52_GL_NONE \<Longrightarrow>
   (\<exists>k. fst (S52_GL_begin False gvp cycle s) = Inl (CycleOutOfSync k)) \<and>
   crnt_GL_cycle (snd (S52_GL_begin False gvp cycle s)) = crnt_GL_cycle s"
  by (simp add: S52_GL_begin_def Let_def)

lemma begin_no_assert:
  "fst (S52_GL_begin True gvp cycle s) = Inr True \<and>
   crnt_GL_cycle (snd (S52_GL_begin True gvp cycle s)) = cycle"
  by (simp add: S52_GL_begin_def Let_def)

text \<open>
  C1, as the code has it. \<^verbatim>\<open>S52_GL_begin\<close> has no failure return: in any build, a
  call that returns, returns \<^verbatim>\<open>TRUE\<close>. A call made while the current cycle is not
  \<^verbatim>\<open>S52_GL_NONE\<close> prints its message and reaches \<^verbatim>\<open>g_assert(0)\<close>. In a build with
  assertions the process is ended there, at ``already inside glBegin()'' when the
  begin flag is still set and at ``S52\_GL\_cycle out of sync'' otherwise, and the
  current cycle is what it was: nothing is returned to the caller. In a build
  without assertions the call goes on: it makes the cycle asked for the current one
  and returns \<^verbatim>\<open>TRUE\<close>. So it is only in a build with assertions that a
  \<^verbatim>\<open>S52_GL_begin(S52_GL_DRAW)\<close> that returns \<^verbatim>\<open>TRUE\<close> was called with the current
  cycle \<^verbatim>\<open>S52_GL_NONE\<close>.
\<close>

theorem begin_out_of_sync:
  "fst (S52_GL_begin da gvp0 cycle0 s0) \<noteq> Inr False \<and>
   (crnt_GL_cycle s \<noteq> S52_GL_NONE \<longrightarrow>
      (\<exists>k. fst (S52_GL_begin False gvp cycle s) = Inl (CycleOutOfSync k)) \<and>
      crnt_GL_cycle (snd (S52_GL_begin False gvp cycle s)) = crnt_GL_cycle s \<and>
      fst (S52_GL_begin True gvp cycle s) = Inr True \<and>
      crnt_GL_cycle (snd (S52_GL_begin True gvp cycle s)) = cycle) \<and>
   (fst (S52_GL_begin False gvp2 S52_GL_DRAW s2) = Inr True \<longrightarrow> crnt_GL_cycle s2 = S52_GL_NONE)"
proof -
  have "crnt_GL_cycle s2 = S52_GL_NONE"
    if "fst (S52_GL_begin False gvp2 S52_GL_DRAW s2) = Inr True"
    using that begin_assert [of s2 gvp2 S52_GL_DRAW] by (cases "crnt_GL_cycle s2") auto
  with begin_returns_True [of da gvp0 cycle0 s0] begin_assert [of s gvp cycle]
    begin_no_assert [of gvp cycle s]
  show ?thesis by blast
qed

theorem begin_out_of_sync_witness:
  "crnt_GL_cycle s_pick \<noteq> S52_GL_NONE \<and>
   fst (S52_GL_begin False vp0 S52_GL_DRAW s_pick) = Inl (CycleOutOfSync Already_inside_glBegin) \<and>
   crnt_GL_cycle (snd (S52_GL_begin False vp0 S52_GL_DRAW s_pick)) = S52_GL_PICK \<and>
   fst (S52_GL_begin True vp0 S52_GL_DRAW s_pick) = Inr True \<and>
   crnt_GL_cycle (snd (S52_GL_begin True vp0 S52_GL_DRAW s_pick)) = S52_GL_DRAW \<and>
   fst (S52_GL_begin False vp0 S52_GL_DRAW s_none) = Inr True \<and>
   crnt_GL_cycle s_none = S52_GL_NONE"
proof -
  have a: "crnt_GL_cycle s_pick = S52_GL_PICK" "GL_BEGIN s_pick"
    by (simp_all add: s_pick_def s_none_def)
  have b: "fst (S52_GL_begin False vp0 S52_GL_DRAW s_pick) =
      Inl (CycleOutOfSync Already_inside_glBegin)"
    using a by (simp add: S52_GL_begin_def)
  from begin_out_of_sync [of False vp0 S52_GL_DRAW s_none s_pick vp0 S52_GL_DRAW vp0 s_none]
    begin_none_ok [of False S52_GL_DRAW] a b
  show ?thesis by simp
qed

text \<open>
  C1 as stated fails: in a build without assertions, a \<^verbatim>\<open>S52_GL_begin(S52_GL_DRAW)\<close>
  called inside a pick cycle returns \<^verbatim>\<open>TRUE\<close> and leaves the draw cycle as the
  current one.
\<close>

theorem begin_counterexample:
  "crnt_GL_cycle s_pick = S52_GL_PICK \<and>
   fst (S52_GL_begin True vp0 S52_GL_DRAW s_pick) = Inr True \<and>
   crnt_GL_cycle (snd (S52_GL_begin True vp0 S52_GL_DRAW s_pick)) = S52_GL_DRAW"
  by (simp add: S52_GL_begin_def Let_def s_pick_def s_none_def)

lemma draw_pick:
  "crnt_GL_cycle s = S52_GL_PICK \<Longrightarrow>
   crnt_GL_cycle (snd (S52_GL_draw rp obj s)) = S52_GL_PICK \<and>
   col_r (cIdx (snd (S52_GL_draw rp obj s))) = col_r (cIdx s) + 1"
  by (simp add: S52_GL_draw_def Let_def)

lemma draw_all_indices:
  "crnt_GL_cycle s = S52_GL_PICK \<Longrightarrow>
   fst (draw_all rp objs s) = map (\<lambda>k. col_r (cIdx s) + of_nat (Suc k)) [0..<length objs]"
proof (induction objs arbitrary: s)
  case Nil
  then show ?case by simp
next
  case (Cons obj objs)
  let ?s1 = "snd (S52_GL_draw rp obj s)"
  from draw_pick [OF Cons.prems, of rp obj]
  have p: "crnt_GL_cycle ?s1 = S52_GL_PICK" and c: "col_r (cIdx ?s1) = col_r (cIdx s) + 1"
    by simp_all
  have "fst (draw_all rp (obj # objs) s) = index_drawn rp obj s # fst (draw_all rp objs ?s1)"
    by (simp add: split_beta Let_def)
  also have "\<dots> = (col_r (cIdx s) + 1) #
      map (\<lambda>k. col_r (cIdx s) + 1 + of_nat (Suc k)) [0..<length objs]"
    using Cons.IH [OF p] c by (simp add: index_drawn_def)
  also have "\<dots> = map (\<lambda>k. col_r (cIdx s) + of_nat (Suc k)) [0..<length (obj # objs)]"
    by (simp add: map_upt_Suc add.assoc del: upt_Suc)
  finally show ?case .
qed

lemma begin_pick:
  "S52_GL_begin da gvp S52_GL_PICK s = (Inr ok, s1) \<Longrightarrow>
   crnt_GL_cycle s1 = S52_GL_PICK \<and> col_r (cIdx s1) = 0"
  by (auto simp: S52_GL_begin_def Let_def split: if_splits)

lemma pick_cycle_indices:
  "pick_cycle da gvp rp objs s = Some ixs \<Longrightarrow> ixs = map (\<lambda>k. of_nat (Suc k)) [0..<length objs]"
proof -
  assume a: "pick_cycle da gvp rp objs s = Some ixs"
  then obtain ok s1 where b: "S52_GL_begin da gvp S52_GL_PICK s = (Inr ok, s1)"
    and i: "ixs = fst (draw_all rp objs s1)"
    by (auto simp: pick_cycle_def split: prod.splits sum.splits)
  from begin_pick [OF b] draw_all_indices [of s1 rp objs] i show ?thesis by simp
qed

lemma Suc_mod_256: "(Suc i mod 256 = Suc j mod 256) = (i mod 256 = j mod 256)"
  by (auto simp: mod_Suc split: if_splits)

lemma byte_index_eq:
  "((of_nat (Suc i) :: 8 word) = of_nat (Suc j)) = (i mod 256 = j mod 256)"
proof -
  have "((of_nat (Suc i) :: 8 word) = of_nat (Suc j)) = (Suc i mod 256 = Suc j mod 256)"
    unfolding word_of_nat_eq_iff take_bit_eq_mod by simp
  then show ?thesis by (simp only: Suc_mod_256)
qed

lemma pick_cycle_s_none:
  "pick_cycle da vp0 rp objs s_none = Some (map (\<lambda>k. of_nat (Suc k)) [0..<length objs])"
proof -
  obtain ok s1 where b: "S52_GL_begin da vp0 S52_GL_PICK s_none = (ok, s1)"
    by (cases "S52_GL_begin da vp0 S52_GL_PICK s_none")
  from begin_none_ok [of da S52_GL_PICK] b have ok: "ok = Inr True"
    and c: "crnt_GL_cycle s1 = S52_GL_PICK" and z: "col_r (cIdx s1) = 0"
    by simp_all
  from draw_all_indices [OF c, of rp objs] z b ok show ?thesis
    by (simp add: pick_cycle_def)
qed

text \<open>
  C2, as the code has it. In a pick cycle the object drawn in place \<open>i\<close> (from 0) is
  drawn with the index \<open>i + 1\<close> in the 8-bit red byte, that is \<open>i + 1\<close> modulo 256: the
  first object has index 1 and each next object one more, and two objects of the cycle
  have the same index exactly when their places differ by a multiple of 256. So the
  indices of any 256 objects drawn in a row are distinct.
\<close>

theorem pick_index_mod_256:
  "pick_cycle da gvp rp objs s = Some ixs \<Longrightarrow>
   length ixs = length objs \<and>
   (\<forall>i < length objs. ixs ! i = of_nat (i + 1)) \<and>
   (\<forall>i < length objs. \<forall>j < length objs. (ixs ! i = ixs ! j) = (i mod 256 = j mod 256))"
proof -
  assume a: "pick_cycle da gvp rp objs s = Some ixs"
  have e: "ixs = map (\<lambda>k. of_nat (Suc k)) [0..<length objs]"
    by (rule pick_cycle_indices [OF a])
  have l: "length ixs = length objs" using e by simp
  have n: "ixs ! i = of_nat (Suc i)" if "i < length objs" for i
    using e that by simp
  have d: "(ixs ! i = ixs ! j) = (i mod 256 = j mod 256)"
    if "i < length objs" "j < length objs" for i j
    using n [OF that(1)] n [OF that(2)] by (simp only: byte_index_eq)
  show ?thesis using l n d by simp
qed

theorem pick_index_mod_256_witness:
  "pick_cycle False vp0 no_pixels [10, 20, 30] s_none = Some [1, 2, 3] \<and>
   length [1, 2, 3 :: 8 word] = length [10, 20, 30 :: nat] \<and>
   [1, 2, 3 :: 8 word] ! 1 = of_nat (1 + 1) \<and>
   ([1, 2, 3 :: 8 word] ! 0 = [1, 2, 3] ! 2) = ((0::nat) mod 256 = 2 mod 256)"
proof -
  have h: "pick_cycle False vp0 no_pixels [10, 20, 30] s_none = Some [1, 2, 3]"
    using pick_cycle_s_none [of False no_pixels "[10, 20, 30]"]
    by (simp add: upt_rec)
  from pick_index_mod_256 [OF h] h show ?thesis by simp
qed

text \<open>
  C2 as stated fails: in a pick cycle over a scene of 257 objects, the first object
  and the last one, which are two objects, are both drawn with index 1.
\<close>

theorem pick_index_counterexample:
  "scene257 ! 0 = 0 \<and> scene257 ! 256 = 256 \<and>
   map_option length (pick_cycle False vp0 no_pixels scene257 s_none) = Some 257 \<and>
   map_option (\<lambda>ixs. ixs ! 0) (pick_cycle False vp0 no_pixels scene257 s_none) = Some 1 \<and>
   map_option (\<lambda>ixs. ixs ! 256) (pick_cycle False vp0 no_pixels scene257 s_none) = Some 1"
proof -
  have l: "length scene257 = 257" by (simp add: scene257_def)
  have a: "scene257 ! 0 = 0" unfolding scene257_def by (subst nth_upt) simp_all
  have b: "scene257 ! 256 = 256" unfolding scene257_def by (subst nth_upt) simp_all
  show ?thesis
    using a b by (simp add: pick_cycle_s_none l del: upt_Suc)
qed

section \<open>Theorems: the arithmetic of doubles\<close>















section \<open>Theorems: clipping a segment to the view\<close>


















section \<open>Theorems: the complex line\<close>








































end
